theory Spec2Isabelle
  imports Main
begin

section \<open>JavaScript values\<close>

text \<open>
  The client in \<^verbatim>\<open>src/lib/api.js\<close> is dynamically typed, and several of its checks
  (\<^verbatim>\<open>!x\<close>, \<^verbatim>\<open>typeof x\<close>, \<^verbatim>\<open>x === undefined\<close>, \<^verbatim>\<open>x !== null\<close>) distinguish the kinds of
  value, so values are modelled as a datatype.

  \<^item> A number is an integer (\<open>JNum\<close>) or \<open>JNaN\<close>; fractions and infinities are not
    modelled. \<open>to_string\<close> prints an integer in decimal, which is what the language
    does for magnitudes below \<open>10^21\<close>, and \<open>parseInt\<close> keeps every digit, which is what
    the language does below \<open>2^53\<close>.
  \<^item> A string is a list of code units; \<^typ>\<open>char\<close> gives the code units \<open>0..255\<close>.
  \<^item> An object is the list of its own enumerable properties, in the order in which
    \<^verbatim>\<open>Object.keys\<close> enumerates them; a property is read with \<open>map_of\<close>.
\<close>

datatype jsval =
    JUndefined
  | JNull
  | JBool bool
  | JNum int
  | JNaN
  | JStr string
  | JObj "(string \<times> jsval) list"

text \<open>
  Every error of the program is a \<^verbatim>\<open>TypeError\<close>: the ones it throws itself, with their
  messages (the specification calls those of the constructor \<^verbatim>\<open>ConfigError\<close> and those
  of the verb methods \<^verbatim>\<open>ArgumentError\<close>), and the ones the language raises for a read or
  a call on a value that does not support it, whose message here only names the
  operation.
\<close>

datatype js_error = TypeError string

text \<open>\<^verbatim>\<open>typeof v\<close>.\<close>

fun typeof_js :: "jsval \<Rightarrow> string" where
  "typeof_js JUndefined = ''undefined''"
| "typeof_js JNull = ''object''"
| "typeof_js (JBool b) = ''boolean''"
| "typeof_js (JNum n) = ''number''"
| "typeof_js JNaN = ''number''"
| "typeof_js (JStr s) = ''string''"
| "typeof_js (JObj kvs) = ''object''"

text \<open>The conversion to a boolean that \<^verbatim>\<open>if (v)\<close>, \<^verbatim>\<open>!v\<close>, \<^verbatim>\<open>v && w\<close> and \<^verbatim>\<open>v || w\<close> apply.\<close>

fun truthy :: "jsval \<Rightarrow> bool" where
  "truthy JUndefined = False"
| "truthy JNull = False"
| "truthy (JBool b) = b"
| "truthy (JNum n) = (n \<noteq> 0)"
| "truthy JNaN = False"
| "truthy (JStr s) = (s \<noteq> [])"
| "truthy (JObj kvs) = True"

text \<open>\<^verbatim>\<open>a || b\<close> on values: the left operand when it is truthy, the right one otherwise.\<close>

definition js_or :: "jsval \<Rightarrow> jsval \<Rightarrow> jsval" where
  "js_or a b = (if truthy a then a else b)"

text \<open>Decimal digits of a natural number.\<close>

fun dec :: "nat \<Rightarrow> string" where
  "dec n = (if n < 10 then [''0123456789'' ! n] else dec (n div 10) @ [''0123456789'' ! (n mod 10)])"

declare dec.simps [simp del]

text \<open>The conversion to a string that \<^verbatim>\<open>+\<close> with a string operand and the library functions apply.\<close>

fun to_string :: "jsval \<Rightarrow> string" where
  "to_string JUndefined = ''undefined''"
| "to_string JNull = ''null''"
| "to_string (JBool b) = (if b then ''true'' else ''false'')"
| "to_string (JNum n) = (if n < 0 then CHR ''-'' # dec (nat (- n)) else dec (nat n))"
| "to_string JNaN = ''NaN''"
| "to_string (JStr s) = s"
| "to_string (JObj kvs) = ''[object Object]''"

text \<open>
  The own enumerable properties of a value that is not \<^verbatim>\<open>undefined\<close> or \<^verbatim>\<open>null\<close>: those of an
  object, the indexed characters of a string, none for the other primitives.
\<close>

fun own_props :: "jsval \<Rightarrow> (string \<times> jsval) list" where
  "own_props (JObj kvs) = kvs"
| "own_props (JStr s) = zip (map dec [0..<length s]) (map (\<lambda>c. JStr [c]) s)"
| "own_props v = []"

text \<open>
  \<^verbatim>\<open>v[k]\<close> for a value that is not \<^verbatim>\<open>undefined\<close> or \<^verbatim>\<open>null\<close>. The program reads own keys
  and the names \<^verbatim>\<open>hostname\<close>, \<^verbatim>\<open>response\<close>, \<^verbatim>\<open>body\<close>, \<^verbatim>\<open>error\<close> and the like, none of which
  is inherited from a prototype, so a name that is not an own property reads as
  \<^verbatim>\<open>undefined\<close>.
\<close>

definition member_of :: "jsval \<Rightarrow> string \<Rightarrow> jsval" where
  "member_of v k = (case map_of (own_props v) k of None \<Rightarrow> JUndefined | Some x \<Rightarrow> x)"

text \<open>\<^verbatim>\<open>v.k\<close>: reading a property of \<^verbatim>\<open>undefined\<close> or \<^verbatim>\<open>null\<close> throws a \<^verbatim>\<open>TypeError\<close>.\<close>

definition read_prop :: "jsval \<Rightarrow> string \<Rightarrow> js_error + jsval" where
  "read_prop v k =
     (if v = JUndefined \<or> v = JNull
      then Inl (TypeError (''Cannot read properties of '' @ to_string v @ '' (reading '' @ k @ '')''))
      else Inr (member_of v k))"

text \<open>\<^verbatim>\<open>Object.keys(v)\<close>.\<close>

definition object_keys :: "jsval \<Rightarrow> js_error + string list" where
  "object_keys v =
     (if v = JUndefined \<or> v = JNull
      then Inl (TypeError ''Cannot convert undefined or null to object'')
      else Inr (map fst (own_props v)))"

text \<open>
  \<^verbatim>\<open>Array.prototype.join\<close>: an element that is \<^verbatim>\<open>undefined\<close> or \<^verbatim>\<open>null\<close> is joined as the
  empty string, any other element as its string conversion.
\<close>

definition join_elem :: "jsval \<Rightarrow> string" where
  "join_elem v = (if v = JUndefined \<or> v = JNull then [] else to_string v)"

fun array_join :: "string \<Rightarrow> jsval list \<Rightarrow> string" where
  "array_join sep [] = []"
| "array_join sep [x] = join_elem x"
| "array_join sep (x # y # ys) = join_elem x @ sep @ array_join sep (y # ys)"

section \<open>Library functions on strings\<close>

text \<open>
  \<^verbatim>\<open>encodeURIComponent\<close>: the unreserved characters \<^verbatim>\<open>A-Z a-z 0-9 - _ . ! ~ * ' ( )\<close> stay,
  every other code unit is written as the \<^verbatim>\<open>%XX\<close> escapes of its UTF-8 bytes (one byte
  below \<open>128\<close>, two bytes for \<open>128..255\<close>), in upper-case hexadecimal.
\<close>

definition uri_unreserved :: "char \<Rightarrow> bool" where
  "uri_unreserved c =
     (let n = (of_char c :: nat)
      in (65 \<le> n \<and> n \<le> 90) \<or> (97 \<le> n \<and> n \<le> 122) \<or> (48 \<le> n \<and> n \<le> 57)
         \<or> n \<in> set [45, 95, 46, 33, 126, 42, 39, 40, 41])"

definition hex_digit :: "nat \<Rightarrow> char" where
  "hex_digit d = ''0123456789ABCDEF'' ! d"

definition pct :: "nat \<Rightarrow> string" where
  "pct b = [CHR ''%'', hex_digit (b div 16), hex_digit (b mod 16)]"

definition utf8 :: "char \<Rightarrow> nat list" where
  "utf8 c =
     (let n = (of_char c :: nat)
      in if n < 128 then [n] else [192 + n div 64, 128 + n mod 64])"

definition encode_unit :: "char \<Rightarrow> string" where
  "encode_unit c = (if uri_unreserved c then [c] else concat (map pct (utf8 c)))"

definition encodeURIComponent :: "jsval \<Rightarrow> string" where
  "encodeURIComponent v = concat (map encode_unit (to_string v))"

text \<open>
  \<^verbatim>\<open>new Buffer(s).toString('base64')\<close>: the UTF-8 bytes of the string, three bytes to
  four characters of the base64 alphabet, padded with \<^verbatim>\<open>=\<close>. Every index into the
  alphabet is a quotient or remainder below \<open>64\<close> when the bytes are below \<open>256\<close>.
\<close>

definition b64 :: "nat \<Rightarrow> char" where
  "b64 n = ''ABCDEFGHIJKLMNOPQRSTUVWXYZabcdefghijklmnopqrstuvwxyz0123456789+/'' ! n"

fun base64 :: "nat list \<Rightarrow> string" where
  "base64 [] = []"
| "base64 [a] = [b64 (a div 4), b64 (a mod 4 * 16), CHR ''='', CHR ''='']"
| "base64 [a, b] =
     [b64 (a div 4), b64 (a mod 4 * 16 + b div 16), b64 (b mod 16 * 4), CHR ''='']"
| "base64 (a # b # c # r) =
     [b64 (a div 4), b64 (a mod 4 * 16 + b div 16), b64 (b mod 16 * 4 + c div 64), b64 (c mod 64)]
     @ base64 r"

definition buffer_base64 :: "string \<Rightarrow> string" where
  "buffer_base64 s = base64 (concat (map utf8 s))"

text \<open>
  \<^verbatim>\<open>parseInt(v)\<close> with no radix: the string conversion of the argument, leading white
  space skipped, an optional sign, radix 16 after a \<^verbatim>\<open>0x\<close> or \<^verbatim>\<open>0X\<close> prefix and radix 10
  otherwise, then the longest prefix of digits; \<^verbatim>\<open>NaN\<close> when there is no digit. It
  never throws on the values modelled here; the result type keeps the
  \<^verbatim>\<open>try\<close>/\<^verbatim>\<open>catch\<close> of the caller visible.
\<close>

definition is_ws :: "char \<Rightarrow> bool" where
  "is_ws c = ((of_char c :: nat) \<in> set [9, 10, 11, 12, 13, 32, 160])"

definition digit_val :: "char \<Rightarrow> nat option" where
  "digit_val c =
     (let n = (of_char c :: nat)
      in if 48 \<le> n \<and> n \<le> 57 then Some (n - 48)
         else if 97 \<le> n \<and> n \<le> 122 then Some (n - 87)
         else if 65 \<le> n \<and> n \<le> 90 then Some (n - 55)
         else None)"

definition radix_digit :: "nat \<Rightarrow> char \<Rightarrow> bool" where
  "radix_digit r c = (case digit_val c of None \<Rightarrow> False | Some d \<Rightarrow> d < r)"

fun digits_value :: "nat \<Rightarrow> nat \<Rightarrow> string \<Rightarrow> nat" where
  "digits_value r acc [] = acc"
| "digits_value r acc (c # cs) = digits_value r (acc * r + (case digit_val c of None \<Rightarrow> 0 | Some d \<Rightarrow> d)) cs"

definition parseInt :: "jsval \<Rightarrow> js_error + jsval" where
  "parseInt v =
     (let s = dropWhile is_ws (to_string v);
          neg = (take 1 s = ''-'');
          s1 = (if take 1 s = ''-'' \<or> take 1 s = ''+'' then drop 1 s else s);
          hex = (take 2 s1 = ''0x'' \<or> take 2 s1 = ''0X'');
          r = (if hex then 16 else 10);
          s2 = (if hex then drop 2 s1 else s1);
          ds = takeWhile (radix_digit r) s2
      in if ds = [] then Inr JNaN
         else Inr (JNum ((if neg then - 1 else 1) * int (digits_value r 0 ds))))"

section \<open>The regular expressions of the constructor\<close>

text \<open>
  \<^verbatim>\<open>hostname.replace(/^https?:\/\//, '')\<close>: the pattern is anchored at the start and has
  no flag, so it removes one leading \<^verbatim>\<open>https://\<close> or \<^verbatim>\<open>http://\<close> in lower case.
\<close>

definition replace_scheme :: "string \<Rightarrow> string" where
  "replace_scheme s =
     (if take 8 s = ''https://'' then drop 8 s
      else if take 7 s = ''http://'' then drop 7 s
      else s)"

text \<open>
  \<^verbatim>\<open>apiKey.search(/[^a-z0-9]{32}/)\<close>: the index of the first run of 32 consecutive code
  units that are all outside \<^verbatim>\<open>[a-z0-9]\<close>, or \<open>-1\<close> when there is none.
\<close>

definition lower_alnum :: "char \<Rightarrow> bool" where
  "lower_alnum c =
     (let n = (of_char c :: nat) in (97 \<le> n \<and> n \<le> 122) \<or> (48 \<le> n \<and> n \<le> 57))"

definition match32 :: "string \<Rightarrow> bool" where
  "match32 s = (32 \<le> length s \<and> list_all (\<lambda>c. \<not> lower_alnum c) (take 32 s))"

fun search_from :: "nat \<Rightarrow> string \<Rightarrow> int" where
  "search_from i [] = - 1"
| "search_from i (c # cs) = (if match32 (c # cs) then int i else search_from (Suc i) cs)"

definition search_invalid :: "string \<Rightarrow> int" where
  "search_invalid s = search_from 0 s"

section \<open>The client: construction\<close>

text \<open>
  The fields of a constructed \<^verbatim>\<open>SonarrAPI\<close>. The constructor calls \<^verbatim>\<open>replace\<close> on the
  hostname and \<^verbatim>\<open>search\<close> on the API key, so both are strings in every client it
  returns; the other fields keep whatever value the options gave.
\<close>

record SonarrAPI =
  hostname :: string
  port :: jsval
  apiKey :: string
  urlBase :: jsval
  ssl :: jsval
  username :: jsval
  password :: jsval
  auth :: bool
  serverApi :: string

text \<open>
  Lines 48-49, \<^verbatim>\<open>this.hostname.replace(...)\<close> on a truthy hostname: a value that is not a
  string has no \<^verbatim>\<open>replace\<close> method, and the call throws.
\<close>

definition sanitize_hostname :: "jsval \<Rightarrow> js_error + string" where
  "sanitize_hostname h =
     (case h of
        JStr s \<Rightarrow> Inr (replace_scheme s)
      | _ \<Rightarrow> Inl (TypeError ''this.hostname.replace is not a function''))"

text \<open>Lines 51-58: a port that is falsy or not of type number goes through \<^verbatim>\<open>parseInt\<close>.\<close>

definition validate_port :: "jsval \<Rightarrow> js_error + jsval" where
  "validate_port p =
     (if (if \<not> truthy p then True else typeof_js p \<noteq> ''number'')
      then (case parseInt p of
              Inl e \<Rightarrow> Inl (TypeError ''Port is not a number'')
            | Inr n \<Rightarrow> Inr n)
      else Inr p)"

text \<open>
  Lines 60-63: \<^verbatim>\<open>this.apiKey.search(...)\<close>. Reading \<^verbatim>\<open>search\<close> of \<^verbatim>\<open>undefined\<close> or \<^verbatim>\<open>null\<close>
  throws, and so does calling it on a value that is not a string.
\<close>

definition check_apiKey :: "jsval \<Rightarrow> js_error + string" where
  "check_apiKey k =
     (case k of
        JStr s \<Rightarrow>
          (if search_invalid s \<noteq> - 1 then Inl (TypeError ''API Key is an invalid'') else Inr s)
      | JUndefined \<Rightarrow> Inl (TypeError ''Cannot read properties of undefined (reading search)'')
      | JNull \<Rightarrow> Inl (TypeError ''Cannot read properties of null (reading search)'')
      | _ \<Rightarrow> Inl (TypeError ''this.apiKey.search is not a function''))"

text \<open>
  Lines 65-68: a truthy \<^verbatim>\<open>urlBase\<close> whose first character is not \<^verbatim>\<open>/\<close> gets one; a truthy
  value that is not a string has no \<^verbatim>\<open>charAt\<close> method.
\<close>

definition normalize_urlBase :: "jsval \<Rightarrow> js_error + jsval" where
  "normalize_urlBase u =
     (if truthy u
      then (case u of
              JStr s \<Rightarrow> Inr (if take 1 s \<noteq> ''/'' then JStr (''/'' @ s) else u)
            | _ \<Rightarrow> Inl (TypeError ''this.urlBase.charAt is not a function''))
      else Inr u)"

text \<open>
  The constructor, lines 27-80. The options object is the list of its properties; a
  property that is absent reads as \<^verbatim>\<open>undefined\<close>.
\<close>

definition SonarrAPI_new :: "(string \<times> jsval) list \<Rightarrow> js_error + SonarrAPI" where
  "SonarrAPI_new options =
     (let hostname0 = member_of (JObj options) ''hostname'';
          port0 = js_or (member_of (JObj options) ''port'') (JNum 8989);
          apiKey0 = member_of (JObj options) ''apiKey'';
          urlBase0 = member_of (JObj options) ''urlBase'';
          ssl0 = js_or (member_of (JObj options) ''ssl'') (JBool False);
          username0 = js_or (member_of (JObj options) ''username'') JNull;
          password0 = js_or (member_of (JObj options) ''password'') JNull;
          auth0 = (truthy username0 \<and> truthy password0)
      in if \<not> truthy hostname0 then Inl (TypeError ''Hostname is empty'')
         else
           (case sanitize_hostname hostname0 of
              Inl e \<Rightarrow> Inl e
            | Inr hostname1 \<Rightarrow>
           (case validate_port port0 of
              Inl e \<Rightarrow> Inl e
            | Inr port1 \<Rightarrow>
           (case check_apiKey apiKey0 of
              Inl e \<Rightarrow> Inl e
            | Inr apiKey1 \<Rightarrow>
           (case normalize_urlBase urlBase0 of
              Inl e \<Rightarrow> Inl e
            | Inr urlBase1 \<Rightarrow>
                (let serverUrl =
                       ''http'' @ (if ssl0 \<noteq> JBool False then ''s'' else [])
                       @ ''://'' @ hostname1 @ '':'' @ to_string port1;
                     serverUrl1 =
                       (if truthy urlBase1 then serverUrl @ to_string urlBase1 else serverUrl)
                 in Inr \<lparr> hostname = hostname1, port = port1, apiKey = apiKey1,
                          urlBase = urlBase1, ssl = ssl0, username = username0,
                          password = password0, auth = auth0,
                          serverApi = serverUrl1 @ ''/api/'' \<rparr>))))))"

section \<open>The client: requests\<close>

text \<open>
  \<^verbatim>\<open>jsonToQueryString\<close>, lines 6-17. The callback of \<^verbatim>\<open>map\<close> returns a string for a key
  whose value is not \<^verbatim>\<open>null\<close> and nothing (\<^verbatim>\<open>undefined\<close>) otherwise; \<^verbatim>\<open>join\<close> then
  writes that element as the empty string.
\<close>

definition query_pair :: "jsval \<Rightarrow> string \<Rightarrow> jsval" where
  "query_pair json key =
     (if member_of json key \<noteq> JNull
      then JStr (encodeURIComponent (JStr key) @ ''='' @ encodeURIComponent (member_of json key))
      else JUndefined)"

definition jsonToQueryString :: "jsval \<Rightarrow> js_error + string" where
  "jsonToQueryString json =
     (case object_keys json of
        Inl e \<Rightarrow> Inl e
      | Inr keys \<Rightarrow> Inr (''?'' @ array_join ''&'' (map (query_pair json) keys)))"

text \<open>
  The options handed to the transport \<^verbatim>\<open>rp\<close> (request-promise), lines 119-144. The
  headers are an object built with \<^verbatim>\<open>Object.assign\<close>: a new key is appended, an
  existing key is overwritten in place. \<^verbatim>\<open>strictSSL\<close> is absent unless it is set;
  \<open>http_method\<close> is the key \<^verbatim>\<open>method\<close>.
\<close>

record rp_options =
  url :: string
  headers :: "(string \<times> string) list"
  strictSSL :: "bool option"
  http_method :: string
  json :: jsval

fun assign :: "(string \<times> 'v) list \<Rightarrow> string \<Rightarrow> 'v \<Rightarrow> (string \<times> 'v) list" where
  "assign [] k v = [(k, v)]"
| "assign ((k', v') # kvs) k v = (if k' = k then (k, v) # kvs else (k', v') # assign kvs k v)"

text \<open>
  The transport is outside the program: it settles each request either with a
  response (\<open>Fulfil\<close>) or with a failure object (\<open>Reject\<close>). The observable effects of
  the client are the requests handed to the transport and the lines written with
  \<^verbatim>\<open>console.log\<close>, both kept in the \<open>world\<close>.
\<close>

datatype rp_result = Fulfil jsval | Reject jsval

record world =
  requests :: "rp_options list"
  console :: "jsval list"

text \<open>
  How a promise returned by the client settles: with a value, or rejected with an
  error thrown inside one of its handlers.
\<close>

datatype promise = Resolved jsval | Rejected js_error

text \<open>
  The \<^verbatim>\<open>catch\<close> handler of \<^verbatim>\<open>_request\<close>, lines 152-159. The chain
  \<^verbatim>\<open>e.response.body.error\<close> throws when \<^verbatim>\<open>e.response\<close> or \<^verbatim>\<open>e.response.body\<close> is
  \<^verbatim>\<open>undefined\<close> or \<^verbatim>\<open>null\<close>; an error thrown in the handler rejects the promise.
\<close>

definition on_failure :: "jsval \<Rightarrow> promise" where
  "on_failure e =
     (case read_prop e ''response'' of
        Inl err \<Rightarrow> Rejected err
      | Inr response \<Rightarrow>
     (case read_prop response ''body'' of
        Inl err \<Rightarrow> Rejected err
      | Inr body \<Rightarrow>
     (case read_prop body ''error'' of
        Inl err \<Rightarrow> Rejected err
      | Inr error \<Rightarrow>
          (if truthy error \<and> error = JStr ''Unauthorized'' then Resolved body
           else Resolved e))))"

text \<open>
  \<^verbatim>\<open>_request\<close>, lines 85-160, with the fields of \<^verbatim>\<open>actions\<close> as arguments, in the four
  steps its comments name: the URL (lines 86-91), the headers (lines 93-116), the
  request options (lines 118-144), and the call of the transport with its two
  handlers (lines 146-159).
\<close>

definition request_url :: "SonarrAPI \<Rightarrow> jsval \<Rightarrow> string \<Rightarrow> jsval \<Rightarrow> js_error + string" where
  "request_url this relativeUrl meth parameters =
     (let apiUrl = serverApi this @ to_string relativeUrl
      in if truthy parameters \<and> meth = ''GET''
         then (case jsonToQueryString parameters of
                 Inl e \<Rightarrow> Inl e
               | Inr q \<Rightarrow> Inr (apiUrl @ q))
         else Inr apiUrl)"

definition request_headers :: "SonarrAPI \<Rightarrow> string \<Rightarrow> (string \<times> string) list" where
  "request_headers this meth =
     (let headers0 = [(''X-API-KEY'', apiKey this)];
          headers1 =
            (if meth = ''GET'' then assign headers0 ''Accept'' ''application/json''
             else assign headers0 ''Content-Type'' ''application/json'')
      in if auth this
         then assign headers1 ''Authorization''
                (''Basic '' @ buffer_base64
                   (to_string (username this) @ '':'' @ to_string (password this)))
         else headers1)"

definition request_options :: "SonarrAPI \<Rightarrow> string \<Rightarrow> string \<Rightarrow> jsval \<Rightarrow> rp_options" where
  "request_options this apiUrl meth parameters =
     \<lparr> url = apiUrl,
       headers = request_headers this meth,
       strictSSL = (if truthy (ssl this) then Some False else None),
       http_method = meth,
       json = (if meth \<in> set [''POST'', ''PUT'', ''DELETE''] then parameters else JBool True) \<rparr>"

text \<open>
  The result is an error thrown while the request is built, or the settlement of the
  promise that is returned; the \<^verbatim>\<open>then\<close> handler logs the response and passes it on.
\<close>

definition SonarrAPI_request ::
  "SonarrAPI \<Rightarrow> (rp_options \<Rightarrow> rp_result) \<Rightarrow> jsval \<Rightarrow> string \<Rightarrow> jsval \<Rightarrow> world
     \<Rightarrow> (js_error + promise) \<times> world" where
  "SonarrAPI_request this rp relativeUrl meth parameters w =
     (case request_url this relativeUrl meth parameters of
        Inl e \<Rightarrow> (Inl e, w)
      | Inr apiUrl \<Rightarrow>
          (let options = request_options this apiUrl meth parameters;
               w1 = w\<lparr> requests := requests w @ [options] \<rparr>
           in case rp options of
                Fulfil response \<Rightarrow>
                  (Inr (Resolved response), w1\<lparr> console := console w1 @ [response] \<rparr>)
              | Reject e \<Rightarrow> (Inr (on_failure e), w1)))"

text \<open>
  The verb methods, lines 165-264. A parameter that is absent or \<^verbatim>\<open>undefined\<close> takes
  its default \<^verbatim>\<open>{}\<close>. The final \<^verbatim>\<open>.then(function (data) { return data; })\<close> passes the
  settlement of \<^verbatim>\<open>_request\<close> on unchanged.
\<close>

definition default_arg :: "jsval \<Rightarrow> jsval \<Rightarrow> jsval" where
  "default_arg v d = (if v = JUndefined then d else v)"

definition then_return :: "(js_error + promise) \<times> world \<Rightarrow> (js_error + promise) \<times> world" where
  "then_return r =
     (case r of
        (Inl e, w) \<Rightarrow> (Inl e, w)
      | (Inr (Resolved data), w) \<Rightarrow> (Inr (Resolved data), w)
      | (Inr (Rejected e), w) \<Rightarrow> (Inr (Rejected e), w))"

definition SonarrAPI_get ::
  "SonarrAPI \<Rightarrow> (rp_options \<Rightarrow> rp_result) \<Rightarrow> jsval \<Rightarrow> jsval \<Rightarrow> world
     \<Rightarrow> (js_error + promise) \<times> world" where
  "SonarrAPI_get this rp relativeUrl parameters0 w =
     (let parameters = default_arg parameters0 (JObj [])
      in if relativeUrl = JUndefined then (Inl (TypeError ''Relative URL is not set''), w)
         else if typeof_js parameters \<noteq> ''object''
         then (Inl (TypeError ''Parameters must be type object''), w)
         else then_return (SonarrAPI_request this rp relativeUrl ''GET'' parameters w))"

definition SonarrAPI_post ::
  "SonarrAPI \<Rightarrow> (rp_options \<Rightarrow> rp_result) \<Rightarrow> jsval \<Rightarrow> jsval \<Rightarrow> world
     \<Rightarrow> (js_error + promise) \<times> world" where
  "SonarrAPI_post this rp relativeUrl parameters0 w =
     (let parameters = default_arg parameters0 (JObj [])
      in if relativeUrl = JUndefined then (Inl (TypeError ''Relative URL is not set''), w)
         else if typeof_js parameters \<noteq> ''object''
         then (Inl (TypeError ''Parameters must be type object''), w)
         else then_return (SonarrAPI_request this rp relativeUrl ''POST'' parameters w))"

definition SonarrAPI_put ::
  "SonarrAPI \<Rightarrow> (rp_options \<Rightarrow> rp_result) \<Rightarrow> jsval \<Rightarrow> jsval \<Rightarrow> world
     \<Rightarrow> (js_error + promise) \<times> world" where
  "SonarrAPI_put this rp relativeUrl parameters0 w =
     (let parameters = default_arg parameters0 (JObj [])
      in if relativeUrl = JUndefined then (Inl (TypeError ''Relative URL is not set''), w)
         else if typeof_js parameters \<noteq> ''object''
         then (Inl (TypeError ''Parameters must be type object''), w)
         else then_return (SonarrAPI_request this rp relativeUrl ''PUT'' parameters w))"

definition SonarrAPI_delete ::
  "SonarrAPI \<Rightarrow> (rp_options \<Rightarrow> rp_result) \<Rightarrow> jsval \<Rightarrow> jsval \<Rightarrow> world
     \<Rightarrow> (js_error + promise) \<times> world" where
  "SonarrAPI_delete this rp relativeUrl parameters0 w =
     (let parameters = default_arg parameters0 (JObj [])
      in if relativeUrl = JUndefined then (Inl (TypeError ''Relative URL is not set''), w)
         else if typeof_js parameters \<noteq> ''object''
         then (Inl (TypeError ''Parameters must be type object''), w)
         else then_return (SonarrAPI_request this rp relativeUrl ''DELETE'' parameters w))"

section \<open>Joining and splitting, as the specification speaks of them\<close>

text \<open>
  The specification describes a query string as pairs "joined with \<^verbatim>\<open>&\<close>" and as a
  sequence of segments "between \<^verbatim>\<open>&\<close> separators". These two functions give those
  words a meaning that does not depend on the program: \<open>joined_with\<close> writes strings one
  after another with a separator between neighbours, and \<open>split_on\<close> cuts a string at
  every occurrence of a separator character (an empty string is one empty segment).
\<close>

fun joined_with :: "string \<Rightarrow> string list \<Rightarrow> string" where
  "joined_with sep [] = []"
| "joined_with sep [s] = s"
| "joined_with sep (s # t # ts) = s @ sep @ joined_with sep (t # ts)"

fun split_on :: "char \<Rightarrow> string \<Rightarrow> string list" where
  "split_on d [] = [[]]"
| "split_on d (c # cs) =
     (if c = d then [] # split_on d cs
      else (case split_on d cs of
              [] \<Rightarrow> [[c]]
            | seg # segs \<Rightarrow> (c # seg) # segs))"

section \<open>Unfolding sets for evaluation\<close>

lemmas new_defs =
  SonarrAPI_new_def member_of_def js_or_def sanitize_hostname_def replace_scheme_def
  validate_port_def check_apiKey_def search_invalid_def match32_def lower_alnum_def
  normalize_urlBase_def parseInt_def is_ws_def radix_digit_def digit_val_def Let_def

lemmas request_defs =
  default_arg_def SonarrAPI_request_def request_url_def request_headers_def request_options_def
  jsonToQueryString_def object_keys_def then_return_def on_failure_def read_prop_def
  member_of_def Let_def

section \<open>Facts about construction\<close>

lemma sanitize_hostname_Inr:
  "sanitize_hostname v = Inr h \<longleftrightarrow> (\<exists>s. v = JStr s \<and> h = replace_scheme s)"
  by (cases v) (auto simp: sanitize_hostname_def)

lemma check_apiKey_Inr:
  "check_apiKey v = Inr k \<longleftrightarrow> v = JStr k \<and> search_invalid k = - 1"
  by (cases v) (auto simp: check_apiKey_def)

lemma normalize_urlBase_Inr:
  "normalize_urlBase v = Inr u \<longleftrightarrow>
     (\<not> truthy v \<and> u = v) \<or>
     (\<exists>s. v = JStr s \<and> s \<noteq> [] \<and> u = JStr (if take 1 s = ''/'' then s else ''/'' @ s))"
  by (cases v) (auto simp: normalize_urlBase_def)

lemma SonarrAPI_new_Inr:
  assumes "SonarrAPI_new options = Inr c"
  obtains h p u where
    "member_of (JObj options) ''hostname'' = JStr h" and "h \<noteq> []"
    and "validate_port (js_or (member_of (JObj options) ''port'') (JNum 8989)) = Inr p"
    and "member_of (JObj options) ''apiKey'' = JStr (apiKey c)"
    and "search_invalid (apiKey c) = - 1"
    and "normalize_urlBase (member_of (JObj options) ''urlBase'') = Inr u"
    and "hostname c = replace_scheme h" and "port c = p" and "urlBase c = u"
    and "ssl c = js_or (member_of (JObj options) ''ssl'') (JBool False)"
    and "username c = js_or (member_of (JObj options) ''username'') JNull"
    and "password c = js_or (member_of (JObj options) ''password'') JNull"
    and "auth c = (truthy (username c) \<and> truthy (password c))"
    and "serverApi c =
           ''http'' @ (if ssl c \<noteq> JBool False then ''s'' else []) @ ''://'' @ hostname c @ '':''
           @ to_string (port c) @ (if truthy u then to_string u else []) @ ''/api/''"
proof -
  let ?h = "member_of (JObj options) ''hostname''"
  from assms have t: "truthy ?h"
    by (auto simp: SonarrAPI_new_def Let_def split: if_splits)
  from assms t obtain h1 where h1: "sanitize_hostname ?h = Inr h1"
    by (cases "sanitize_hostname ?h") (auto simp: SonarrAPI_new_def Let_def)
  from assms t h1 obtain p where p: "validate_port (js_or (member_of (JObj options) ''port'') (JNum 8989)) = Inr p"
    by (cases "validate_port (js_or (member_of (JObj options) ''port'') (JNum 8989))")
      (auto simp: SonarrAPI_new_def Let_def)
  from assms t h1 p obtain k where k: "check_apiKey (member_of (JObj options) ''apiKey'') = Inr k"
    by (cases "check_apiKey (member_of (JObj options) ''apiKey'')")
      (auto simp: SonarrAPI_new_def Let_def)
  from assms t h1 p k obtain u where u: "normalize_urlBase (member_of (JObj options) ''urlBase'') = Inr u"
    by (cases "normalize_urlBase (member_of (JObj options) ''urlBase'')")
      (auto simp: SonarrAPI_new_def Let_def)
  from assms [symmetric] t h1 p k u have c:
    "c = \<lparr> hostname = h1, port = p, apiKey = k, urlBase = u,
           ssl = js_or (member_of (JObj options) ''ssl'') (JBool False),
           username = js_or (member_of (JObj options) ''username'') JNull,
           password = js_or (member_of (JObj options) ''password'') JNull,
           auth = (truthy (js_or (member_of (JObj options) ''username'') JNull) \<and>
                   truthy (js_or (member_of (JObj options) ''password'') JNull)),
           serverApi =
             (if truthy u
              then (''http'' @ (if js_or (member_of (JObj options) ''ssl'') (JBool False) \<noteq> JBool False
                                then ''s'' else [])
                    @ ''://'' @ h1 @ '':'' @ to_string p) @ to_string u
              else ''http'' @ (if js_or (member_of (JObj options) ''ssl'') (JBool False) \<noteq> JBool False
                               then ''s'' else [])
                   @ ''://'' @ h1 @ '':'' @ to_string p) @ ''/api/'' \<rparr>"
    by (simp add: SonarrAPI_new_def Let_def)
  from h1 obtain h where h: "?h = JStr h" "h1 = replace_scheme h"
    by (auto simp: sanitize_hostname_Inr)
  from t h have hne: "h \<noteq> []" by simp
  from k have k': "member_of (JObj options) ''apiKey'' = JStr k" "search_invalid k = - 1"
    by (auto simp: check_apiKey_Inr)
  show thesis
    by (rule that [of h p u]) (use h hne p k' u c in simp_all)
qed

lemma js_or_False_iff: "js_or v (JBool False) \<noteq> JBool False \<longleftrightarrow> truthy v"
  by (cases v) (auto simp: js_or_def)

lemma replace_scheme_https: "replace_scheme (''https://'' @ r) = r"
  by (simp add: replace_scheme_def)

lemma replace_scheme_http: "replace_scheme (''http://'' @ r) = r"
  by (simp add: replace_scheme_def)

lemma replace_scheme_other:
  assumes "\<forall>r. h \<noteq> ''https://'' @ r \<and> h \<noteq> ''http://'' @ r"
  shows "replace_scheme h = h"
proof -
  have "take 8 h \<noteq> ''https://''"
  proof
    assume "take 8 h = ''https://''"
    then have "h = ''https://'' @ drop 8 h" by (metis append_take_drop_id)
    with assms show False by blast
  qed
  moreover have "take 7 h \<noteq> ''http://''"
  proof
    assume "take 7 h = ''http://''"
    then have "h = ''http://'' @ drop 7 h" by (metis append_take_drop_id)
    with assms show False by blast
  qed
  ultimately show ?thesis by (simp add: replace_scheme_def)
qed

lemma truthy_js_or_JNull: "truthy (js_or v JNull) = truthy v"
  by (simp add: js_or_def)

lemma js_or_truthy: "truthy v \<Longrightarrow> js_or v d = v"
  by (simp add: js_or_def)

text \<open>
  What the API key check accepts and rejects: a key is rejected exactly when it holds
  32 consecutive code units outside \<^verbatim>\<open>[a-z0-9]\<close>. Every shorter key passes, whatever its
  characters, and so does every key made of lower-case alphanumerics.
\<close>

lemma search_from_short: "length s < 32 \<Longrightarrow> search_from i s = - 1"
  by (induction s arbitrary: i) (auto simp: match32_def)

lemma search_from_lower_alnum: "list_all lower_alnum s \<Longrightarrow> search_from i s = - 1"
  by (induction s arbitrary: i) (auto simp: match32_def)

lemma short_apiKey_is_accepted: "length k < 32 \<Longrightarrow> check_apiKey (JStr k) = Inr k"
  by (simp add: check_apiKey_def search_invalid_def search_from_short)

lemma lower_alnum_apiKey_is_accepted: "list_all lower_alnum k \<Longrightarrow> check_apiKey (JStr k) = Inr k"
  by (simp add: check_apiKey_def search_invalid_def search_from_lower_alnum)

lemma search_from_found:
  "search_from i s \<noteq> - 1 \<longleftrightarrow> (\<exists>j \<le> length s. match32 (drop j s))"
proof (induction s arbitrary: i)
  case Nil
  then show ?case by (simp add: match32_def)
next
  case (Cons c cs)
  show ?case
  proof (cases "match32 (c # cs)")
    case True
    then have "\<exists>j \<le> length (c # cs). match32 (drop j (c # cs))"
      by (intro exI [of _ 0]) simp
    with True show ?thesis by simp
  next
    case False
    have "(\<exists>j \<le> length (c # cs). match32 (drop j (c # cs))) \<longleftrightarrow>
          (\<exists>j \<le> length cs. match32 (drop j cs))"
    proof
      assume "\<exists>j \<le> length (c # cs). match32 (drop j (c # cs))"
      then obtain j where j: "j \<le> length (c # cs)" "match32 (drop j (c # cs))" by blast
      with False obtain j' where "j = Suc j'" by (cases j) auto
      with j show "\<exists>j \<le> length cs. match32 (drop j cs)" by auto
    next
      assume "\<exists>j \<le> length cs. match32 (drop j cs)"
      then obtain j where "j \<le> length cs" "match32 (drop j cs)" by blast
      then show "\<exists>j \<le> length (c # cs). match32 (drop j (c # cs))"
        by (intro exI [of _ "Suc j"]) simp
    qed
    with False Cons.IH [of "Suc i"] show ?thesis by simp
  qed
qed

lemma apiKey_rejected_iff:
  "check_apiKey (JStr k) = Inl (TypeError ''API Key is an invalid'') \<longleftrightarrow>
     (\<exists>j. j + 32 \<le> length k \<and> list_all (\<lambda>c. \<not> lower_alnum c) (take 32 (drop j k)))"
proof -
  have "(\<exists>j \<le> length k. match32 (drop j k)) \<longleftrightarrow>
        (\<exists>j. j + 32 \<le> length k \<and> list_all (\<lambda>c. \<not> lower_alnum c) (take 32 (drop j k)))"
  proof
    assume "\<exists>j \<le> length k. match32 (drop j k)"
    then obtain j where "j \<le> length k" "match32 (drop j k)" by blast
    then have "j + 32 \<le> length k" "list_all (\<lambda>c. \<not> lower_alnum c) (take 32 (drop j k))"
      unfolding match32_def length_drop by linarith+
    then show "\<exists>j. j + 32 \<le> length k \<and> list_all (\<lambda>c. \<not> lower_alnum c) (take 32 (drop j k))"
      by blast
  next
    assume "\<exists>j. j + 32 \<le> length k \<and> list_all (\<lambda>c. \<not> lower_alnum c) (take 32 (drop j k))"
    then obtain j where "j + 32 \<le> length k"
      "list_all (\<lambda>c. \<not> lower_alnum c) (take 32 (drop j k))" by blast
    then have "j \<le> length k" "match32 (drop j k)"
      unfolding match32_def length_drop by linarith+
    then show "\<exists>j \<le> length k. match32 (drop j k)" by blast
  qed
  then show ?thesis
    using search_from_found [of 0 k] by (simp add: check_apiKey_def search_invalid_def)
qed

text \<open>
  \<open>parseInt\<close> returns a number or \<^verbatim>\<open>NaN\<close> and never throws, so no options make the
  constructor fail with \<^verbatim>\<open>Port is not a number\<close>.
\<close>

lemma parseInt_never_throws: "\<exists>n. parseInt v = Inr n"
  by (simp add: parseInt_def Let_def)

lemma validate_port_never_throws: "\<exists>n. validate_port p = Inr n"
  using parseInt_never_throws [of p] by (auto simp: validate_port_def)

lemma port_error_is_unreachable:
  "SonarrAPI_new options \<noteq> Inl (TypeError ''Port is not a number'')"
proof -
  obtain n where n: "validate_port (js_or (member_of (JObj options) ''port'') (JNum 8989)) = Inr n"
    using validate_port_never_throws by blast
  show ?thesis
    by (auto simp: SonarrAPI_new_def Let_def n sanitize_hostname_def check_apiKey_def
        normalize_urlBase_def split: sum.splits jsval.splits if_splits)
qed

section \<open>Facts about requests\<close>

lemma then_return_id: "then_return r = r"
  by (auto simp: then_return_def split: prod.splits sum.splits promise.splits)

lemma typeof_object_iff:
  "typeof_js v = ''object'' \<longleftrightarrow> v = JNull \<or> (\<exists>kvs. v = JObj kvs)"
  by (cases v) auto

lemma object_keys_truthy: "truthy ps \<Longrightarrow> object_keys ps = Inr (map fst (own_props ps))"
  by (cases ps) (auto simp: object_keys_def)

lemma request_url_eq:
  "request_url c rel m ps =
     Inr (serverApi c @ to_string rel @
          (if truthy ps \<and> m = ''GET''
           then ''?'' @ array_join ''&'' (map (query_pair ps) (map fst (own_props ps)))
           else []))"
  by (cases "truthy ps \<and> m = ''GET''")
    (auto simp: request_url_def jsonToQueryString_def object_keys_truthy Let_def)

lemma SonarrAPI_request_eq:
  assumes "request_url c rel m ps = Inr u" and "ro = request_options c u m ps"
  shows "SonarrAPI_request c rp rel m ps w =
     (case rp ro of
        Fulfil response \<Rightarrow>
          (Inr (Resolved response),
           \<lparr> requests = requests w @ [ro], console = console w @ [response] \<rparr>)
      | Reject e \<Rightarrow>
          (Inr (on_failure e), \<lparr> requests = requests w @ [ro], console = console w \<rparr>))"
  using assms by (cases "rp ro") (simp_all add: SonarrAPI_request_def Let_def)

lemma SonarrAPI_request_sent:
  assumes "request_url c rel m ps = Inr u"
  shows "requests (snd (SonarrAPI_request c rp rel m ps w)) = requests w @ [request_options c u m ps]"
    and "\<exists>p. fst (SonarrAPI_request c rp rel m ps w) = Inr p"
  using SonarrAPI_request_eq [OF assms refl, of rp w]
  by (cases "rp (request_options c u m ps)"; simp)+

lemma request_headers_lookup:
  "map_of (request_headers c m) ''X-API-KEY'' = Some (apiKey c)"
  "map_of (request_headers c m) ''Accept'' = (if m = ''GET'' then Some ''application/json'' else None)"
  "map_of (request_headers c m) ''Content-Type'' =
     (if m = ''GET'' then None else Some ''application/json'')"
  "map_of (request_headers c m) ''Authorization'' =
     (if auth c
      then Some (''Basic '' @ buffer_base64 (to_string (username c) @ '':'' @ to_string (password c)))
      else None)"
  by (simp_all add: request_headers_def Let_def)

lemma verb_unfold:
  "SonarrAPI_get c rp rel ps w =
     (if rel = JUndefined then (Inl (TypeError ''Relative URL is not set''), w)
      else if ps \<noteq> JUndefined \<and> typeof_js ps \<noteq> ''object''
      then (Inl (TypeError ''Parameters must be type object''), w)
      else SonarrAPI_request c rp rel ''GET'' (default_arg ps (JObj [])) w)"
  "SonarrAPI_post c rp rel ps w =
     (if rel = JUndefined then (Inl (TypeError ''Relative URL is not set''), w)
      else if ps \<noteq> JUndefined \<and> typeof_js ps \<noteq> ''object''
      then (Inl (TypeError ''Parameters must be type object''), w)
      else SonarrAPI_request c rp rel ''POST'' (default_arg ps (JObj [])) w)"
  "SonarrAPI_put c rp rel ps w =
     (if rel = JUndefined then (Inl (TypeError ''Relative URL is not set''), w)
      else if ps \<noteq> JUndefined \<and> typeof_js ps \<noteq> ''object''
      then (Inl (TypeError ''Parameters must be type object''), w)
      else SonarrAPI_request c rp rel ''PUT'' (default_arg ps (JObj [])) w)"
  "SonarrAPI_delete c rp rel ps w =
     (if rel = JUndefined then (Inl (TypeError ''Relative URL is not set''), w)
      else if ps \<noteq> JUndefined \<and> typeof_js ps \<noteq> ''object''
      then (Inl (TypeError ''Parameters must be type object''), w)
      else SonarrAPI_request c rp rel ''DELETE'' (default_arg ps (JObj [])) w)"
  by (cases "ps = JUndefined";
      simp add: SonarrAPI_get_def SonarrAPI_post_def SonarrAPI_put_def SonarrAPI_delete_def
        then_return_id default_arg_def)+

text \<open>What holds of any method that checks its arguments and then calls \<open>_request\<close>.\<close>

lemma checked_verb_rejects:
  assumes V: "\<And>rel ps w. V rel ps w =
     (if rel = JUndefined then (Inl (TypeError ''Relative URL is not set''), w)
      else if ps \<noteq> JUndefined \<and> typeof_js ps \<noteq> ''object''
      then (Inl (TypeError ''Parameters must be type object''), w)
      else SonarrAPI_request c rp rel m (default_arg ps (JObj [])) w)"
  shows "(rel = JUndefined \<longrightarrow> V rel ps w = (Inl (TypeError ''Relative URL is not set''), w)) \<and>
     (rel \<noteq> JUndefined \<and> typeof_js ps \<notin> {''object'', ''undefined''} \<longrightarrow>
        V rel ps w = (Inl (TypeError ''Parameters must be type object''), w))"
  by (cases ps) (simp_all add: V)

lemma checked_verb_sends:
  assumes V: "\<And>rel ps w. V rel ps w =
     (if rel = JUndefined then (Inl (TypeError ''Relative URL is not set''), w)
      else if ps \<noteq> JUndefined \<and> typeof_js ps \<noteq> ''object''
      then (Inl (TypeError ''Parameters must be type object''), w)
      else SonarrAPI_request c rp rel m (default_arg ps (JObj [])) w)"
    and ok: "rel \<noteq> JUndefined" "ps = JUndefined \<or> typeof_js ps = ''object''"
    and u: "request_url c rel m (default_arg ps (JObj [])) = Inr u"
  shows "requests (snd (V rel ps w)) =
           requests w @ [request_options c u m (default_arg ps (JObj []))]"
    and "\<exists>p. fst (V rel ps w) = Inr p"
  using ok SonarrAPI_request_sent [OF u, of rp w] by (auto simp: V)

lemma checked_verb_exact:
  assumes V: "\<And>rel ps w. V rel ps w =
     (if rel = JUndefined then (Inl (TypeError ''Relative URL is not set''), w)
      else if ps \<noteq> JUndefined \<and> typeof_js ps \<noteq> ''object''
      then (Inl (TypeError ''Parameters must be type object''), w)
      else SonarrAPI_request c rp rel m (default_arg ps (JObj [])) w)"
  shows "((\<exists>e. fst (V rel ps w) = Inl e) \<longleftrightarrow>
           rel = JUndefined \<or> (ps \<noteq> JUndefined \<and> typeof_js ps \<noteq> ''object''))
    \<and> (ps = JUndefined \<or> typeof_js ps = ''object'' \<longrightarrow>
           (\<exists>p. fst (V JNull ps w) = Inr p) \<and>
           (\<exists>ro q. requests (snd (V JNull ps w)) = requests w @ [ro] \<and> http_method ro = m \<and>
                    url ro = serverApi c @ ''null'' @ q))
    \<and> (rel \<noteq> JUndefined \<longrightarrow>
           (\<exists>p. fst (V rel JNull w) = Inr p) \<and>
           (\<exists>ro. requests (snd (V rel JNull w)) = requests w @ [ro] \<and> http_method ro = m \<and>
                 url ro = serverApi c @ to_string rel \<and>
                 json ro = (if m \<in> set [''POST'', ''PUT'', ''DELETE''] then JNull else JBool True)))"
proof -
  have a: "(\<exists>e. fst (V rel ps w) = Inl e) \<longleftrightarrow>
           rel = JUndefined \<or> (ps \<noteq> JUndefined \<and> typeof_js ps \<noteq> ''object'')"
  proof (cases "rel = JUndefined \<or> (ps \<noteq> JUndefined \<and> typeof_js ps \<noteq> ''object'')")
    case True
    then show ?thesis by (auto simp: V)
  next
    case False
    then have ok: "rel \<noteq> JUndefined" "ps = JUndefined \<or> typeof_js ps = ''object''" by auto
    from checked_verb_sends(2) [of V c rp m rel ps, OF V ok request_url_eq]
    obtain p where "fst (V rel ps w) = Inr p" by blast
    with False show ?thesis by simp
  qed
  have b: "(\<exists>p. fst (V JNull ps w) = Inr p) \<and>
        (\<exists>ro q. requests (snd (V JNull ps w)) = requests w @ [ro] \<and> http_method ro = m \<and>
                 url ro = serverApi c @ ''null'' @ q)"
    if ok: "ps = JUndefined \<or> typeof_js ps = ''object''"
  proof -
    have n: "JNull \<noteq> JUndefined" by simp
    note s = checked_verb_sends [of V c rp m JNull ps, OF V n ok request_url_eq]
    show ?thesis
      using s(2) [of w] by (simp add: s(1) request_options_def)
  qed
  have d: "(\<exists>p. fst (V rel JNull w) = Inr p) \<and>
        (\<exists>ro. requests (snd (V rel JNull w)) = requests w @ [ro] \<and> http_method ro = m \<and>
              url ro = serverApi c @ to_string rel \<and>
              json ro = (if m \<in> set [''POST'', ''PUT'', ''DELETE''] then JNull else JBool True))"
    if rel: "rel \<noteq> JUndefined"
  proof -
    have ok: "JNull = JUndefined \<or> typeof_js JNull = ''object''" by simp
    note s = checked_verb_sends [of V c rp m rel JNull, OF V rel ok request_url_eq]
    show ?thesis
      using s(2) [of w] by (simp add: s(1) request_options_def default_arg_def)
  qed
  from a b d show ?thesis by blast
qed

lemma checked_verb_headers:
  assumes V: "\<And>rel ps w. V rel ps w =
     (if rel = JUndefined then (Inl (TypeError ''Relative URL is not set''), w)
      else if ps \<noteq> JUndefined \<and> typeof_js ps \<noteq> ''object''
      then (Inl (TypeError ''Parameters must be type object''), w)
      else SonarrAPI_request c rp rel m (default_arg ps (JObj [])) w)"
    and r: "V rel ps w = (Inr p, w')"
  shows "\<exists>ro. requests w' = requests w @ [ro] \<and> http_method ro = m \<and>
              headers ro = request_headers c m"
proof -
  from r have ok: "rel \<noteq> JUndefined" "ps = JUndefined \<or> typeof_js ps = ''object''"
    by (auto simp: V split: if_splits)
  from checked_verb_sends(1) [of V c rp m rel ps, OF V ok request_url_eq, of w] r
  show ?thesis by (simp add: request_options_def)
qed

lemma configured_headers:
  assumes "SonarrAPI_new options = Inr c"
  shows "map_of (request_headers c m) ''X-API-KEY'' = Some (apiKey c) \<and>
     member_of (JObj options) ''apiKey'' = JStr (apiKey c) \<and>
     map_of (request_headers c m) ''Accept'' =
       (if m = ''GET'' then Some ''application/json'' else None) \<and>
     map_of (request_headers c m) ''Content-Type'' =
       (if m = ''GET'' then None else Some ''application/json'') \<and>
     map_of (request_headers c m) ''Authorization'' =
       (if truthy (member_of (JObj options) ''username'') \<and>
           truthy (member_of (JObj options) ''password'')
        then Some (''Basic '' @ buffer_base64
                     (to_string (member_of (JObj options) ''username'') @ '':'' @
                      to_string (member_of (JObj options) ''password'')))
        else None)"
proof -
  from assms obtain k: "member_of (JObj options) ''apiKey'' = JStr (apiKey c)"
    and u: "username c = js_or (member_of (JObj options) ''username'') JNull"
    and p: "password c = js_or (member_of (JObj options) ''password'') JNull"
    and a: "auth c = (truthy (username c) \<and> truthy (password c))"
    by (rule SonarrAPI_new_Inr)
  show ?thesis
    by (simp add: request_headers_lookup k a u p truthy_js_or_JNull js_or_truthy)
qed

text \<open>
  The failure handler resolves when the failure carries a response with a body, and
  rejects when the response or its body is missing.
\<close>

lemma on_failure_with_body:
  assumes "read_prop e ''response'' = Inr response" and "read_prop response ''body'' = Inr body"
    and "body \<noteq> JUndefined" and "body \<noteq> JNull"
  shows "on_failure e =
     (if member_of body ''error'' = JStr ''Unauthorized'' then Resolved body else Resolved e)"
  using assms by (auto simp: on_failure_def read_prop_def)

lemma on_failure_without_body:
  assumes "read_prop e ''response'' = Inl err \<or>
     (\<exists>response. read_prop e ''response'' = Inr response \<and>
        (response = JUndefined \<or> response = JNull \<or>
         member_of response ''body'' = JUndefined \<or> member_of response ''body'' = JNull))"
  shows "\<exists>err. on_failure e = Rejected err"
  using assms by (auto simp: on_failure_def read_prop_def split: if_splits)

section \<open>Facts about query strings\<close>

lemma array_join_joined_with: "array_join sep vs = joined_with sep (map join_elem vs)"
  by (induction sep vs rule: array_join.induct) simp_all

lemma query_pairs_distinct:
  assumes "distinct (map fst kvs)"
  shows "map (query_pair (JObj kvs)) (map fst kvs) =
         map (\<lambda>(k, v). if v \<noteq> JNull
                         then JStr (encodeURIComponent (JStr k) @ ''='' @ encodeURIComponent v)
                         else JUndefined) kvs"
  using assms by (auto simp: query_pair_def member_of_def)

lemma query_string_segments:
  assumes "distinct (map fst kvs)"
  shows "array_join ''&'' (map (query_pair (JObj kvs)) (map fst kvs)) =
         joined_with ''&''
           (map (\<lambda>(k, v). if v = JNull then []
                           else encodeURIComponent (JStr k) @ ''='' @ encodeURIComponent v) kvs)"
proof -
  have "map join_elem (map (\<lambda>(k, v). if v \<noteq> JNull
                         then JStr (encodeURIComponent (JStr k) @ ''='' @ encodeURIComponent v)
                         else JUndefined) kvs) =
        map (\<lambda>(k, v). if v = JNull then []
                           else encodeURIComponent (JStr k) @ ''='' @ encodeURIComponent v) kvs"
    by (auto simp: join_elem_def split: if_splits)
  then show ?thesis
    by (simp only: array_join_joined_with query_pairs_distinct [OF assms])
qed

lemma query_string_segments_comp:
  assumes "distinct (map fst kvs)"
  shows "array_join ''&'' (map (query_pair (JObj kvs) \<circ> fst) kvs) =
         joined_with ''&''
           (map (\<lambda>(k, v). if v = JNull then []
                           else encodeURIComponent (JStr k) @ ''='' @ encodeURIComponent v) kvs)"
  using query_string_segments [OF assms] by simp

lemma split_on_no_separator: "d \<notin> set s \<Longrightarrow> split_on d s = [s]"
  by (induction s) auto

lemma split_on_append: "d \<notin> set s \<Longrightarrow> split_on d (s @ d # t) = s # split_on d t"
  by (induction s) auto

lemma split_on_joined_with:
  assumes "segs \<noteq> []" and "\<forall>s \<in> set segs. d \<notin> set s"
  shows "split_on d (joined_with [d] segs) = segs"
  using assms
proof (induction "[d]" segs rule: joined_with.induct)
  case 1
  then show ?case by simp
next
  case (2 s)
  then show ?case by (simp add: split_on_no_separator)
next
  case (3 s t ts)
  then show ?case by (simp add: split_on_append)
qed

lemma hex_digit_not_amp: "d < 16 \<Longrightarrow> hex_digit d \<noteq> CHR ''&''"
proof -
  assume "d < 16"
  then have "hex_digit d \<in> set ''0123456789ABCDEF''"
    unfolding hex_digit_def by (intro nth_mem) simp
  then show ?thesis by auto
qed

lemma pct_no_amp: "b < 256 \<Longrightarrow> CHR ''&'' \<notin> set (pct b)"
proof -
  assume "b < 256"
  then have "b div 16 < 16" by simp
  moreover have "b mod 16 < 16" by simp
  ultimately show ?thesis
    using hex_digit_not_amp [of "b div 16"] hex_digit_not_amp [of "b mod 16"]
    by (auto simp: pct_def)
qed

lemma utf8_bytes: "b \<in> set (utf8 c) \<Longrightarrow> b < 256"
proof -
  assume b: "b \<in> set (utf8 c)"
  have "(of_char c :: nat) < 256" by simp
  then have "(of_char c :: nat) div 64 < 4" by arith
  moreover have "(of_char c :: nat) mod 64 < 64" by simp
  ultimately show ?thesis
    using b by (auto simp: utf8_def Let_def split: if_splits)
qed

lemma encode_unit_no_amp: "CHR ''&'' \<notin> set (encode_unit c)"
proof (cases "uri_unreserved c")
  case True
  then have "c \<noteq> CHR ''&''" by (auto simp: uri_unreserved_def)
  with True show ?thesis by (simp add: encode_unit_def)
next
  case False
  then show ?thesis
    using pct_no_amp utf8_bytes by (auto simp: encode_unit_def)
qed

lemma encodeURIComponent_no_amp: "CHR ''&'' \<notin> set (encodeURIComponent v)"
  using encode_unit_no_amp by (auto simp: encodeURIComponent_def)

lemma get_request_url:
  assumes "rel \<noteq> JUndefined" and "ps = JUndefined \<or> typeof_js ps = ''object''"
  shows "\<exists>ro. requests (snd (SonarrAPI_get c rp rel ps w)) = requests w @ [ro] \<and>
     url ro = serverApi c @ to_string rel @
       (if truthy (default_arg ps (JObj []))
        then ''?'' @ array_join ''&''
               (map (query_pair (default_arg ps (JObj [])))
                  (map fst (own_props (default_arg ps (JObj [])))))
        else [])"
  using checked_verb_sends(1) [of "SonarrAPI_get c rp" c rp "''GET''" rel ps, OF verb_unfold(1) assms
      request_url_eq, of w]
  by (simp add: request_options_def)

section \<open>Construction: the API key\<close>

text \<open>
  C1. The claim: construction fails for every API key that contains a character outside
  \<^verbatim>\<open>[a-z0-9]\<close>, and succeeds for every key of 32 lower-case alphanumerics. The pattern
  \<^verbatim>\<open>/[^a-z0-9]{32}/\<close> of the constructor only matches 32 consecutive characters that are
  all outside the class, so a key with one upper-case letter is accepted: the key
  \<^verbatim>\<open>A1b2c3d4e5f6a7b8c9d0e1f2a3b4c5d6\<close> constructs a client. (\<open>apiKey_rejected_iff\<close> says
  which keys are rejected; \<open>lower_alnum_apiKey_is_accepted\<close> is the half of the claim
  that holds.)
\<close>

theorem apiKey_with_uppercase_is_accepted:
  "SonarrAPI_new
     [(''hostname'', JStr ''localhost''),
      (''apiKey'', JStr ''A1b2c3d4e5f6a7b8c9d0e1f2a3b4c5d6'')]
   = Inr \<lparr> hostname = ''localhost'', port = JNum 8989,
            apiKey = ''A1b2c3d4e5f6a7b8c9d0e1f2a3b4c5d6'', urlBase = JUndefined,
            ssl = JBool False, username = JNull, password = JNull, auth = False,
            serverApi = ''http://localhost:8989/api/'' \<rparr>"
  by (simp add: new_defs dec.simps)

section \<open>Construction: the base URL\<close>

text \<open>
  C4. For every client that the constructor returns, \<open>serverApi\<close> is the scheme, \<^verbatim>\<open>://\<close>,
  the stored hostname, \<^verbatim>\<open>:\<close>, the stored port, the base path and \<^verbatim>\<open>/api/\<close>. The scheme
  is \<^verbatim>\<open>https\<close> exactly when the \<^verbatim>\<open>ssl\<close> option is truthy. The base path is present exactly
  when \<^verbatim>\<open>urlBase\<close> was given as a non-empty string (no other truthy value constructs a
  client), and it is that string with a \<^verbatim>\<open>/\<close> put in front unless it starts with one.
\<close>

theorem serverApi_is_scheme_host_port_base_api:
  assumes "SonarrAPI_new options = Inr c"
  shows "serverApi c =
           (if truthy (member_of (JObj options) ''ssl'') then ''https'' else ''http'') @ ''://''
           @ hostname c @ '':'' @ to_string (port c)
           @ (case member_of (JObj options) ''urlBase'' of
                JStr b \<Rightarrow> (if b = [] then [] else if hd b = CHR ''/'' then b else CHR ''/'' # b)
              | _ \<Rightarrow> [])
           @ ''/api/''
         \<and> (truthy (member_of (JObj options) ''urlBase'') \<longrightarrow>
              (\<exists>b. member_of (JObj options) ''urlBase'' = JStr b))"
proof -
  from assms obtain u where
    u: "normalize_urlBase (member_of (JObj options) ''urlBase'') = Inr u"
    and s: "ssl c = js_or (member_of (JObj options) ''ssl'') (JBool False)"
    and a: "serverApi c =
           ''http'' @ (if ssl c \<noteq> JBool False then ''s'' else []) @ ''://'' @ hostname c @ '':''
           @ to_string (port c) @ (if truthy u then to_string u else []) @ ''/api/''"
    by (rule SonarrAPI_new_Inr)
  let ?b = "member_of (JObj options) ''urlBase''"
  have base: "(if truthy u then to_string u else []) =
      (case ?b of
         JStr b \<Rightarrow> (if b = [] then [] else if hd b = CHR ''/'' then b else CHR ''/'' # b)
       | _ \<Rightarrow> [])"
  proof (cases ?b)
    case (JStr b)
    show ?thesis
    proof (cases b)
      case Nil
      with JStr u show ?thesis by (simp add: normalize_urlBase_Inr)
    next
      case (Cons x xs)
      with JStr u show ?thesis by (auto simp: normalize_urlBase_Inr)
    qed
  qed (use u in \<open>auto simp: normalize_urlBase_Inr\<close>)
  have str: "truthy ?b \<longrightarrow> (\<exists>b. ?b = JStr b)"
    using u by (auto simp: normalize_urlBase_Inr)
  have scheme: "''http'' @ (if ssl c \<noteq> JBool False then ''s'' else []) =
      (if truthy (member_of (JObj options) ''ssl'') then ''https'' else ''http'')"
    by (simp add: s js_or_False_iff)
  show ?thesis
    using a base str scheme by simp
qed

theorem serverApi_is_scheme_host_port_base_api_witness:
  "(\<exists>c. SonarrAPI_new
          [(''hostname'', JStr ''example.com''), (''apiKey'', JStr ''a1b2c3d4e5f6a7b8c9d0e1f2a3b4c5d6''),
           (''urlBase'', JStr ''sonarr''), (''ssl'', JBool True)] = Inr c
        \<and> urlBase c = JStr ''/sonarr''
        \<and> serverApi c = ''https://example.com:8989/sonarr/api/'')
   \<and> (\<exists>c. SonarrAPI_new
          [(''hostname'', JStr ''example.com''), (''apiKey'', JStr ''a1b2c3d4e5f6a7b8c9d0e1f2a3b4c5d6''),
           (''urlBase'', JStr ''/sonarr'')] = Inr c
        \<and> urlBase c = JStr ''/sonarr''
        \<and> serverApi c = ''http://example.com:8989/sonarr/api/'')"
proof -
  let ?o1 = "[(''hostname'', JStr ''example.com''), (''apiKey'', JStr ''a1b2c3d4e5f6a7b8c9d0e1f2a3b4c5d6''),
              (''urlBase'', JStr ''sonarr''), (''ssl'', JBool True)]"
  let ?o2 = "[(''hostname'', JStr ''example.com''), (''apiKey'', JStr ''a1b2c3d4e5f6a7b8c9d0e1f2a3b4c5d6''),
              (''urlBase'', JStr ''/sonarr'')]"
  obtain c1 where c1: "SonarrAPI_new ?o1 = Inr c1" and f1: "hostname c1 = ''example.com''"
    "port c1 = JNum 8989" "urlBase c1 = JStr ''/sonarr''"
    by (simp add: new_defs)
  obtain c2 where c2: "SonarrAPI_new ?o2 = Inr c2" and f2: "hostname c2 = ''example.com''"
    "port c2 = JNum 8989" "urlBase c2 = JStr ''/sonarr''"
    by (simp add: new_defs)
  have "serverApi c1 = ''https://example.com:8989/sonarr/api/''"
    using serverApi_is_scheme_host_port_base_api [OF c1] f1 by (simp add: member_of_def dec.simps)
  moreover have "serverApi c2 = ''http://example.com:8989/sonarr/api/''"
    using serverApi_is_scheme_host_port_base_api [OF c2] f2 by (simp add: member_of_def dec.simps)
  ultimately show ?thesis using c1 c2 f1 f2 by blast
qed

section \<open>Construction: the port\<close>

text \<open>
  C5. The claim: a port whose parse fails makes construction fail with the error
  \<^verbatim>\<open>Port is not a number\<close>. The constructor wraps \<^verbatim>\<open>parseInt\<close> in \<^verbatim>\<open>try\<close>/\<^verbatim>\<open>catch\<close>, but
  \<^verbatim>\<open>parseInt\<close> returns \<^verbatim>\<open>NaN\<close> instead of throwing, so the port \<^verbatim>\<open>"abc"\<close> constructs a
  client whose port is \<^verbatim>\<open>NaN\<close>. (By \<open>port_error_is_unreachable\<close> no options at all
  produce that error.)
\<close>

theorem unparsable_port_is_accepted:
  "SonarrAPI_new
     [(''hostname'', JStr ''localhost''), (''port'', JStr ''abc''),
      (''apiKey'', JStr ''a1b2c3d4e5f6a7b8c9d0e1f2a3b4c5d6'')]
   = Inr \<lparr> hostname = ''localhost'', port = JNaN,
            apiKey = ''a1b2c3d4e5f6a7b8c9d0e1f2a3b4c5d6'', urlBase = JUndefined,
            ssl = JBool False, username = JNull, password = JNull, auth = False,
            serverApi = ''http://localhost:NaN/api/'' \<rparr>"
  by (simp add: new_defs)

section \<open>Construction: the hostname\<close>

text \<open>
  C6. The claim: a missing or empty hostname fails, and otherwise a leading
  \<^verbatim>\<open>http://\<close> or \<^verbatim>\<open>https://\<close> is stripped whatever its case, so that
  \<^verbatim>\<open>HTTPS://example.com\<close> is stored as \<^verbatim>\<open>example.com\<close>. The pattern of the constructor has
  no \<^verbatim>\<open>i\<close> flag: the hostname \<^verbatim>\<open>HTTPS://example.com\<close> is stored as it is.
\<close>

theorem uppercase_scheme_is_kept_counterexample:
  "SonarrAPI_new
     [(''hostname'', JStr ''HTTPS://example.com''),
      (''apiKey'', JStr ''a1b2c3d4e5f6a7b8c9d0e1f2a3b4c5d6'')]
   = Inr \<lparr> hostname = ''HTTPS://example.com'', port = JNum 8989,
            apiKey = ''a1b2c3d4e5f6a7b8c9d0e1f2a3b4c5d6'', urlBase = JUndefined,
            ssl = JBool False, username = JNull, password = JNull, auth = False,
            serverApi = ''http://HTTPS://example.com:8989/api/'' \<rparr>"
  by (simp add: new_defs dec.simps)

text \<open>
  C6, as the constructor behaves. A hostname that is missing or falsy (empty) fails
  with \<^verbatim>\<open>Hostname is empty\<close>. In every client that is constructed the hostname option
  was a non-empty string, and the stored hostname is that string without a leading
  lower-case \<^verbatim>\<open>https://\<close> or \<^verbatim>\<open>http://\<close>; a string with neither prefix is stored unchanged.
\<close>

theorem hostname_required_and_scheme_stripped:
  "(\<not> truthy (member_of (JObj options) ''hostname'') \<longrightarrow>
      SonarrAPI_new options = Inl (TypeError ''Hostname is empty''))
   \<and> (SonarrAPI_new options = Inr c \<longrightarrow>
        (\<exists>h. member_of (JObj options) ''hostname'' = JStr h \<and> h \<noteq> [] \<and>
             (\<forall>r. h = ''https://'' @ r \<longrightarrow> hostname c = r) \<and>
             (\<forall>r. h = ''http://'' @ r \<longrightarrow> hostname c = r) \<and>
             ((\<forall>r. h \<noteq> ''https://'' @ r \<and> h \<noteq> ''http://'' @ r) \<longrightarrow> hostname c = h)))"
proof (intro conjI impI)
  assume "\<not> truthy (member_of (JObj options) ''hostname'')"
  then show "SonarrAPI_new options = Inl (TypeError ''Hostname is empty'')"
    by (simp add: SonarrAPI_new_def Let_def)
next
  assume "SonarrAPI_new options = Inr c"
  then obtain h where h: "member_of (JObj options) ''hostname'' = JStr h" "h \<noteq> []"
    and c: "hostname c = replace_scheme h"
    by (rule SonarrAPI_new_Inr)
  show "\<exists>h. member_of (JObj options) ''hostname'' = JStr h \<and> h \<noteq> [] \<and>
             (\<forall>r. h = ''https://'' @ r \<longrightarrow> hostname c = r) \<and>
             (\<forall>r. h = ''http://'' @ r \<longrightarrow> hostname c = r) \<and>
             ((\<forall>r. h \<noteq> ''https://'' @ r \<and> h \<noteq> ''http://'' @ r) \<longrightarrow> hostname c = h)"
    using h c replace_scheme_https replace_scheme_http replace_scheme_other
    by (intro exI [of _ h]) auto
qed

theorem hostname_required_and_scheme_stripped_witness:
  "SonarrAPI_new [(''hostname'', JStr []), (''apiKey'', JStr ''a1b2c3d4e5f6a7b8c9d0e1f2a3b4c5d6'')]
     = Inl (TypeError ''Hostname is empty'')
   \<and> SonarrAPI_new [(''apiKey'', JStr ''a1b2c3d4e5f6a7b8c9d0e1f2a3b4c5d6'')]
     = Inl (TypeError ''Hostname is empty'')
   \<and> (\<exists>c. SonarrAPI_new
          [(''hostname'', JStr ''https://example.com''),
           (''apiKey'', JStr ''a1b2c3d4e5f6a7b8c9d0e1f2a3b4c5d6'')] = Inr c
        \<and> hostname c = ''example.com'')"
proof -
  let ?k = "(''apiKey'', JStr ''a1b2c3d4e5f6a7b8c9d0e1f2a3b4c5d6'')"
  have 1: "SonarrAPI_new [(''hostname'', JStr []), ?k] = Inl (TypeError ''Hostname is empty'')"
    using hostname_required_and_scheme_stripped [of "[(''hostname'', JStr []), ?k]"]
    by (simp add: member_of_def)
  have 2: "SonarrAPI_new [?k] = Inl (TypeError ''Hostname is empty'')"
    using hostname_required_and_scheme_stripped [of "[?k]"]
    by (simp add: member_of_def)
  obtain c where c: "SonarrAPI_new [(''hostname'', JStr ''https://example.com''), ?k] = Inr c"
    by (simp add: new_defs)
  have "hostname c = ''example.com''"
    using hostname_required_and_scheme_stripped [of "[(''hostname'', JStr ''https://example.com''), ?k]" c] c
    by (simp add: member_of_def)
  with 1 2 c show ?thesis by blast
qed

section \<open>Requests: transport failures\<close>

text \<open>
  C2. The claim: a transport failure never reaches the caller as a rejection. The
  handler reads \<^verbatim>\<open>e.response.body.error\<close> without a guard; a failure that carries no
  response (the transport's \<^verbatim>\<open>RequestError\<close> for a refused connection) makes that read
  throw inside the handler, and the promise returned by \<^verbatim>\<open>get\<close> is rejected.
  (\<open>on_failure_with_body\<close> is the part of the claim that holds: a failure that carries
  a response with a body resolves, to the body when its error is \<^verbatim>\<open>Unauthorized\<close> and to
  the failure otherwise.)
\<close>

theorem failure_without_response_rejects:
  "fst (SonarrAPI_get c
          (\<lambda>_. Reject (JObj [(''name'', JStr ''RequestError''),
                             (''message'', JStr ''Error: connect ECONNREFUSED 127.0.0.1:8989'')]))
          (JStr ''series'') JUndefined w)
   = Inr (Rejected (TypeError ''Cannot read properties of undefined (reading body)''))"
  by (simp add: SonarrAPI_get_def request_defs)

section \<open>Requests: headers\<close>

text \<open>
  C7. For a client built from \<open>options\<close>, every call of a verb method that returns a
  promise has handed exactly one request to the transport. Its \<^verbatim>\<open>X-API-KEY\<close> header is
  the configured key; a \<^verbatim>\<open>GET\<close> carries \<^verbatim>\<open>Accept: application/json\<close> and no \<^verbatim>\<open>Content-Type\<close>,
  the other methods carry \<^verbatim>\<open>Content-Type: application/json\<close> and no \<^verbatim>\<open>Accept\<close>; and the
  \<^verbatim>\<open>Authorization\<close> header is \<^verbatim>\<open>Basic\<close> followed by the base64 of \<^verbatim>\<open>username:password\<close>
  when both options were given (truthy), and absent otherwise.
\<close>

theorem every_request_carries_headers:
  assumes "SonarrAPI_new options = Inr c"
  shows "\<forall>(m, verb) \<in> set [(''GET'', SonarrAPI_get), (''POST'', SonarrAPI_post),
                             (''PUT'', SonarrAPI_put), (''DELETE'', SonarrAPI_delete)].
     \<forall>rp rel ps w p w'. verb c rp rel ps w = (Inr p, w') \<longrightarrow>
       (\<exists>ro. requests w' = requests w @ [ro] \<and> http_method ro = m \<and>
          map_of (headers ro) ''X-API-KEY'' = Some (apiKey c) \<and>
          member_of (JObj options) ''apiKey'' = JStr (apiKey c) \<and>
          map_of (headers ro) ''Accept'' =
            (if m = ''GET'' then Some ''application/json'' else None) \<and>
          map_of (headers ro) ''Content-Type'' =
            (if m = ''GET'' then None else Some ''application/json'') \<and>
          map_of (headers ro) ''Authorization'' =
            (if truthy (member_of (JObj options) ''username'') \<and>
                truthy (member_of (JObj options) ''password'')
             then Some (''Basic '' @ buffer_base64
                          (to_string (member_of (JObj options) ''username'') @ '':'' @
                           to_string (member_of (JObj options) ''password'')))
             else None))"
proof -
  have H: "\<exists>ro. requests w' = requests w @ [ro] \<and> http_method ro = m \<and>
          map_of (headers ro) ''X-API-KEY'' = Some (apiKey c) \<and>
          member_of (JObj options) ''apiKey'' = JStr (apiKey c) \<and>
          map_of (headers ro) ''Accept'' =
            (if m = ''GET'' then Some ''application/json'' else None) \<and>
          map_of (headers ro) ''Content-Type'' =
            (if m = ''GET'' then None else Some ''application/json'') \<and>
          map_of (headers ro) ''Authorization'' =
            (if truthy (member_of (JObj options) ''username'') \<and>
                truthy (member_of (JObj options) ''password'')
             then Some (''Basic '' @ buffer_base64
                          (to_string (member_of (JObj options) ''username'') @ '':'' @
                           to_string (member_of (JObj options) ''password'')))
             else None)"
    if V: "\<And>rel ps w. V rel ps w =
       (if rel = JUndefined then (Inl (TypeError ''Relative URL is not set''), w)
        else if ps \<noteq> JUndefined \<and> typeof_js ps \<noteq> ''object''
        then (Inl (TypeError ''Parameters must be type object''), w)
        else SonarrAPI_request c rp rel m (default_arg ps (JObj [])) w)"
      and r: "V rel ps w = (Inr p, w')"
    for V rp m rel ps w p w'
  proof -
    from checked_verb_headers [of V c rp m, OF V r]
    obtain ro where "requests w' = requests w @ [ro]" "http_method ro = m"
      "headers ro = request_headers c m" by blast
    with configured_headers [OF assms, of m] show ?thesis by auto
  qed
  show ?thesis
    using H [of "SonarrAPI_get c _" _ "''GET''", OF verb_unfold(1)]
      H [of "SonarrAPI_post c _" _ "''POST''", OF verb_unfold(2)]
      H [of "SonarrAPI_put c _" _ "''PUT''", OF verb_unfold(3)]
      H [of "SonarrAPI_delete c _" _ "''DELETE''", OF verb_unfold(4)]
    by simp
qed

theorem every_request_carries_headers_witness:
  "\<exists>c p w' ro.
     SonarrAPI_new
       [(''hostname'', JStr ''localhost''), (''apiKey'', JStr ''a1b2c3d4e5f6a7b8c9d0e1f2a3b4c5d6''),
        (''username'', JStr ''Aladdin''), (''password'', JStr ''open sesame'')] = Inr c
     \<and> SonarrAPI_get c (\<lambda>_. Fulfil JNull) (JStr ''series'') JUndefined
           \<lparr> requests = [], console = [] \<rparr> = (Inr p, w')
     \<and> requests w' = [ro]
     \<and> map_of (headers ro) ''X-API-KEY'' = Some ''a1b2c3d4e5f6a7b8c9d0e1f2a3b4c5d6''
     \<and> map_of (headers ro) ''Accept'' = Some ''application/json''
     \<and> map_of (headers ro) ''Content-Type'' = None
     \<and> map_of (headers ro) ''Authorization'' = Some ''Basic QWxhZGRpbjpvcGVuIHNlc2FtZQ==''"
proof -
  let ?opts = "[(''hostname'', JStr ''localhost''),
                (''apiKey'', JStr ''a1b2c3d4e5f6a7b8c9d0e1f2a3b4c5d6''),
                (''username'', JStr ''Aladdin''), (''password'', JStr ''open sesame'')]"
  let ?w = "\<lparr> requests = [], console = [] \<rparr>"
  obtain c where c: "SonarrAPI_new ?opts = Inr c"
    and k: "apiKey c = ''a1b2c3d4e5f6a7b8c9d0e1f2a3b4c5d6''"
    by (simp add: new_defs)
  obtain p w' where r: "SonarrAPI_get c (\<lambda>_. Fulfil JNull) (JStr ''series'') JUndefined ?w = (Inr p, w')"
    by (simp add: verb_unfold SonarrAPI_request_def request_url_eq Let_def)
  have b: "buffer_base64 ''Aladdin:open sesame'' = ''QWxhZGRpbjpvcGVuIHNlc2FtZQ==''"
    by (simp add: buffer_base64_def utf8_def b64_def)
  have g: "(''GET'', SonarrAPI_get) \<in> set [(''GET'', SonarrAPI_get), (''POST'', SonarrAPI_post),
                             (''PUT'', SonarrAPI_put), (''DELETE'', SonarrAPI_delete)]"
    by simp
  have m: "member_of (JObj ?opts) ''username'' = JStr ''Aladdin''"
    "member_of (JObj ?opts) ''password'' = JStr ''open sesame''"
    by (simp_all add: member_of_def)
  from bspec [OF every_request_carries_headers [OF c] g] r
  have "\<exists>ro. requests w' = requests ?w @ [ro] \<and> http_method ro = ''GET'' \<and>
          map_of (headers ro) ''X-API-KEY'' = Some (apiKey c) \<and>
          member_of (JObj ?opts) ''apiKey'' = JStr (apiKey c) \<and>
          map_of (headers ro) ''Accept'' =
            (if ''GET'' = ''GET'' then Some ''application/json'' else None) \<and>
          map_of (headers ro) ''Content-Type'' =
            (if ''GET'' = ''GET'' then None else Some ''application/json'') \<and>
          map_of (headers ro) ''Authorization'' =
            (if truthy (member_of (JObj ?opts) ''username'') \<and>
                truthy (member_of (JObj ?opts) ''password'')
             then Some (''Basic '' @ buffer_base64
                          (to_string (member_of (JObj ?opts) ''username'') @ '':'' @
                           to_string (member_of (JObj ?opts) ''password'')))
             else None)"
    by (simp only: prod.case)
  then obtain ro where "requests w' = [ro]"
    "map_of (headers ro) ''X-API-KEY'' = Some ''a1b2c3d4e5f6a7b8c9d0e1f2a3b4c5d6''"
    "map_of (headers ro) ''Accept'' = Some ''application/json''"
    "map_of (headers ro) ''Content-Type'' = None"
    "map_of (headers ro) ''Authorization'' = Some ''Basic QWxhZGRpbjpvcGVuIHNlc2FtZQ==''"
    unfolding m k by (auto simp: b)
  with c r show ?thesis by blast
qed

section \<open>Requests: the URL and the query string\<close>

text \<open>
  C3. The claim: a \<^verbatim>\<open>GET\<close> appends a query string if and only if the parameters
  mapping is non-empty, so that an empty mapping gives a URL with no \<^verbatim>\<open>?\<close>. The guard of
  \<^verbatim>\<open>_request\<close> is the truthiness of the parameters, and an empty object is truthy:
  \<^verbatim>\<open>get("series", {})\<close> requests the URL \<^verbatim>\<open>http://localhost:8989/api/series?\<close>.
\<close>

theorem get_with_empty_parameters_counterexample:
  "map url (requests (snd (SonarrAPI_get
       \<lparr> hostname = ''localhost'', port = JNum 8989, apiKey = ''a1b2c3d4e5f6a7b8c9d0e1f2a3b4c5d6'',
         urlBase = JUndefined, ssl = JBool False, username = JNull, password = JNull,
         auth = False, serverApi = ''http://localhost:8989/api/'' \<rparr>
       (\<lambda>_. Fulfil JNull) (JStr ''series'') (JObj []) \<lparr> requests = [], console = [] \<rparr>)))
   = [''http://localhost:8989/api/series?'']"
  by (simp add: SonarrAPI_get_def request_defs)

text \<open>
  C3, as \<^verbatim>\<open>get\<close> behaves. With a relative URL and an object as parameters, the URL is
  \<open>serverApi\<close>, the relative URL, \<^verbatim>\<open>?\<close>, and one segment for each key joined with \<^verbatim>\<open>&\<close>:
  the encoded key, \<^verbatim>\<open>=\<close> and the encoded value, or nothing when the value is \<^verbatim>\<open>null\<close>.
  Absent parameters are the empty object, whose query string is the bare \<^verbatim>\<open>?\<close>; only
  the parameters \<^verbatim>\<open>null\<close> give a URL without a query string.
\<close>

theorem get_url_and_query_string:
  assumes "rel \<noteq> JUndefined" and "distinct (map fst kvs)"
  shows "(\<exists>ro. requests (snd (SonarrAPI_get c rp rel (JObj kvs) w)) = requests w @ [ro] \<and>
            url ro = serverApi c @ to_string rel @ ''?'' @
              joined_with ''&''
                (map (\<lambda>(k, v). if v = JNull then []
                                else encodeURIComponent (JStr k) @ ''='' @ encodeURIComponent v)
                   kvs))
     \<and> (\<exists>ro. requests (snd (SonarrAPI_get c rp rel JUndefined w)) = requests w @ [ro] \<and>
            url ro = serverApi c @ to_string rel @ ''?'')
     \<and> (\<exists>ro. requests (snd (SonarrAPI_get c rp rel JNull w)) = requests w @ [ro] \<and>
            url ro = serverApi c @ to_string rel)"
proof (intro conjI)
  show "\<exists>ro. requests (snd (SonarrAPI_get c rp rel (JObj kvs) w)) = requests w @ [ro] \<and>
            url ro = serverApi c @ to_string rel @ ''?'' @
              joined_with ''&''
                (map (\<lambda>(k, v). if v = JNull then []
                                else encodeURIComponent (JStr k) @ ''='' @ encodeURIComponent v)
                   kvs)"
    using get_request_url [of rel "JObj kvs" c rp w] assms
    by (simp add: default_arg_def query_string_segments_comp)
  show "\<exists>ro. requests (snd (SonarrAPI_get c rp rel JUndefined w)) = requests w @ [ro] \<and>
            url ro = serverApi c @ to_string rel @ ''?''"
    using get_request_url [of rel JUndefined c rp w] assms
    by (simp add: default_arg_def)
  show "\<exists>ro. requests (snd (SonarrAPI_get c rp rel JNull w)) = requests w @ [ro] \<and>
            url ro = serverApi c @ to_string rel"
    using get_request_url [of rel JNull c rp w] assms
    by (simp add: default_arg_def)
qed

theorem get_url_and_query_string_witness:
  "\<exists>ro. requests (snd (SonarrAPI_get
       \<lparr> hostname = ''localhost'', port = JNum 8989, apiKey = ''a1b2c3d4e5f6a7b8c9d0e1f2a3b4c5d6'',
         urlBase = JUndefined, ssl = JBool False, username = JNull, password = JNull,
         auth = False, serverApi = ''http://localhost:8989/api/'' \<rparr>
       (\<lambda>_. Fulfil JNull) (JStr ''series'') (JObj [(''id'', JNum 5)])
       \<lparr> requests = [], console = [] \<rparr>)) = [ro]
     \<and> url ro = ''http://localhost:8989/api/series?id=5''"
proof -
  have r: "JStr ''series'' \<noteq> JUndefined" by simp
  have d: "distinct (map fst [(''id'', JNum 5)])" by simp
  have e: "encodeURIComponent (JStr ''id'') = ''id''" "encodeURIComponent (JNum 5) = ''5''"
    by (simp_all add: encodeURIComponent_def encode_unit_def uri_unreserved_def dec.simps)
  show ?thesis
    using get_url_and_query_string [OF r d,
        of "\<lparr> hostname = ''localhost'', port = JNum 8989,
             apiKey = ''a1b2c3d4e5f6a7b8c9d0e1f2a3b4c5d6'',
             urlBase = JUndefined, ssl = JBool False, username = JNull, password = JNull,
             auth = False, serverApi = ''http://localhost:8989/api/'' \<rparr>"
        "\<lambda>_. Fulfil JNull" "\<lparr> requests = [], console = [] \<rparr>"]
    by (simp add: e)
qed

text \<open>
  C9. In the URL of a \<^verbatim>\<open>GET\<close> with a non-empty parameters object, the query string after
  the \<^verbatim>\<open>?\<close> has exactly one segment between \<^verbatim>\<open>&\<close> separators for each key, in the order of
  the keys; the segment of a key whose value is \<^verbatim>\<open>null\<close> is empty, and the segment of any
  other key is its encoded \<^verbatim>\<open>key=value\<close> pair.
\<close>

theorem null_valued_keys_leave_empty_segments:
  assumes "rel \<noteq> JUndefined" and "kvs \<noteq> []" and "distinct (map fst kvs)"
  shows "\<exists>ro q. requests (snd (SonarrAPI_get c rp rel (JObj kvs) w)) = requests w @ [ro] \<and>
           url ro = serverApi c @ to_string rel @ ''?'' @ q \<and>
           length (split_on CHR ''&'' q) = length kvs \<and>
           (\<forall>i<length kvs.
              split_on CHR ''&'' q ! i =
                (if snd (kvs ! i) = JNull then []
                 else encodeURIComponent (JStr (fst (kvs ! i))) @ ''='' @
                      encodeURIComponent (snd (kvs ! i))))"
proof -
  let ?seg = "\<lambda>(k, v). if v = JNull then []
                         else encodeURIComponent (JStr k) @ ''='' @ encodeURIComponent v"
  let ?q = "joined_with ''&'' (map ?seg kvs)"
  from get_request_url [of rel "JObj kvs" c rp w] assms
  obtain ro where ro: "requests (snd (SonarrAPI_get c rp rel (JObj kvs) w)) = requests w @ [ro]"
    "url ro = serverApi c @ to_string rel @ ''?'' @ ?q"
    by (auto simp: default_arg_def query_string_segments_comp)
  have "\<forall>s \<in> set (map ?seg kvs). CHR ''&'' \<notin> set s"
    using encodeURIComponent_no_amp by (auto split: if_splits)
  with assms(2) have s: "split_on CHR ''&'' ?q = map ?seg kvs"
    using split_on_joined_with [of "map ?seg kvs" "CHR ''&''"] by simp
  have "\<forall>i<length kvs. map ?seg kvs ! i =
          (if snd (kvs ! i) = JNull then []
           else encodeURIComponent (JStr (fst (kvs ! i))) @ ''='' @
                encodeURIComponent (snd (kvs ! i)))"
    by (simp add: case_prod_beta)
  with ro s show ?thesis by (intro exI [of _ ro] exI [of _ ?q]) simp
qed

theorem null_valued_keys_leave_empty_segments_witness:
  "\<exists>ro q. requests (snd (SonarrAPI_get
       \<lparr> hostname = ''localhost'', port = JNum 8989, apiKey = ''a1b2c3d4e5f6a7b8c9d0e1f2a3b4c5d6'',
         urlBase = JUndefined, ssl = JBool False, username = JNull, password = JNull,
         auth = False, serverApi = ''http://localhost:8989/api/'' \<rparr>
       (\<lambda>_. Fulfil JNull) (JStr ''series'') (JObj [(''a'', JNull), (''b'', JNum 1)])
       \<lparr> requests = [], console = [] \<rparr>)) = [ro]
     \<and> url ro = ''http://localhost:8989/api/series?'' @ q
     \<and> split_on CHR ''&'' q = [[], ''b=1'']"
proof -
  let ?c = "\<lparr> hostname = ''localhost'', port = JNum 8989,
             apiKey = ''a1b2c3d4e5f6a7b8c9d0e1f2a3b4c5d6'',
             urlBase = JUndefined, ssl = JBool False, username = JNull, password = JNull,
             auth = False, serverApi = ''http://localhost:8989/api/'' \<rparr>"
  let ?kvs = "[(''a'', JNull), (''b'', JNum 1)]"
  have r: "JStr ''series'' \<noteq> JUndefined" and n: "?kvs \<noteq> []" and d: "distinct (map fst ?kvs)"
    by simp_all
  have e: "encodeURIComponent (JStr ''b'') = ''b''" "encodeURIComponent (JNum 1) = ''1''"
    by (simp_all add: encodeURIComponent_def encode_unit_def uri_unreserved_def dec.simps)
  from null_valued_keys_leave_empty_segments [OF r n d, of ?c "\<lambda>_. Fulfil JNull"
      "\<lparr> requests = [], console = [] \<rparr>"]
  obtain ro q where ro: "requests (snd (SonarrAPI_get ?c (\<lambda>_. Fulfil JNull) (JStr ''series'')
        (JObj ?kvs) \<lparr> requests = [], console = [] \<rparr>)) = [ro]"
    "url ro = ''http://localhost:8989/api/series?'' @ q"
    and l: "length (split_on CHR ''&'' q) = 2"
    and i: "\<forall>i<2. split_on CHR ''&'' q ! i =
                (if snd (?kvs ! i) = JNull then []
                 else encodeURIComponent (JStr (fst (?kvs ! i))) @ ''='' @
                      encodeURIComponent (snd (?kvs ! i)))"
    by auto
  from i have "split_on CHR ''&'' q ! 0 = []" "split_on CHR ''&'' q ! 1 = ''b=1''"
    by (simp_all add: e)
  with l have "split_on CHR ''&'' q = [[], ''b=1'']"
    by (cases "split_on CHR ''&'' q"; cases "tl (split_on CHR ''&'' q)") auto
  with ro show ?thesis by blast
qed

section \<open>Verb methods: argument checks\<close>

text \<open>
  C8. Each of \<^verbatim>\<open>get\<close>, \<^verbatim>\<open>post\<close>, \<^verbatim>\<open>put\<close> and \<^verbatim>\<open>delete\<close> throws synchronously, with the world
  unchanged (no request was handed to the transport, whatever the transport would
  answer), when the relative URL is absent (\<^verbatim>\<open>undefined\<close>), and likewise when the
  parameters argument has a type other than \<^verbatim>\<open>object\<close> (a string, a number, a boolean);
  an absent parameters argument takes the default \<^verbatim>\<open>{}\<close>.
\<close>

theorem verbs_reject_bad_arguments:
  "\<forall>verb \<in> set [SonarrAPI_get, SonarrAPI_post, SonarrAPI_put, SonarrAPI_delete].
     (relativeUrl = JUndefined \<longrightarrow>
        verb c rp relativeUrl parameters w = (Inl (TypeError ''Relative URL is not set''), w)) \<and>
     (relativeUrl \<noteq> JUndefined \<and> typeof_js parameters \<notin> {''object'', ''undefined''} \<longrightarrow>
        verb c rp relativeUrl parameters w = (Inl (TypeError ''Parameters must be type object''), w))"
  using checked_verb_rejects [of "SonarrAPI_get c rp", OF verb_unfold(1)]
    checked_verb_rejects [of "SonarrAPI_post c rp", OF verb_unfold(2)]
    checked_verb_rejects [of "SonarrAPI_put c rp", OF verb_unfold(3)]
    checked_verb_rejects [of "SonarrAPI_delete c rp", OF verb_unfold(4)]
  by simp

theorem verbs_reject_bad_arguments_witness:
  "SonarrAPI_get
     \<lparr> hostname = ''localhost'', port = JNum 8989, apiKey = ''a1b2c3d4e5f6a7b8c9d0e1f2a3b4c5d6'',
       urlBase = JUndefined, ssl = JBool False, username = JNull, password = JNull,
       auth = False, serverApi = ''http://localhost:8989/api/'' \<rparr>
     (\<lambda>_. Fulfil JNull) JUndefined JUndefined \<lparr> requests = [], console = [] \<rparr>
   = (Inl (TypeError ''Relative URL is not set''), \<lparr> requests = [], console = [] \<rparr>)
   \<and> SonarrAPI_get
     \<lparr> hostname = ''localhost'', port = JNum 8989, apiKey = ''a1b2c3d4e5f6a7b8c9d0e1f2a3b4c5d6'',
       urlBase = JUndefined, ssl = JBool False, username = JNull, password = JNull,
       auth = False, serverApi = ''http://localhost:8989/api/'' \<rparr>
     (\<lambda>_. Fulfil JNull) (JStr ''series'') (JStr ''not-an-object'') \<lparr> requests = [], console = [] \<rparr>
   = (Inl (TypeError ''Parameters must be type object''), \<lparr> requests = [], console = [] \<rparr>)"
  using verbs_reject_bad_arguments [where relativeUrl = JUndefined and parameters = JUndefined]
    verbs_reject_bad_arguments [where relativeUrl = "JStr ''series''"
      and parameters = "JStr ''not-an-object''"]
  by simp

text \<open>
  C10. The checks of the verb methods are \<^verbatim>\<open>=== undefined\<close> and \<^verbatim>\<open>typeof ... !== 'object'\<close>:
  a call throws exactly when the relative URL is \<^verbatim>\<open>undefined\<close> or the parameters
  argument is given with a type other than \<^verbatim>\<open>object\<close>. A relative URL \<^verbatim>\<open>null\<close> is
  dispatched, to the URL \<^verbatim>\<open>serverApi + "null"\<close>; parameters \<^verbatim>\<open>null\<close> pass the check and the
  request is dispatched as well, with no query string.
\<close>

theorem null_arguments_are_dispatched:
  "\<forall>(m, verb) \<in> set [(''GET'', SonarrAPI_get), (''POST'', SonarrAPI_post),
                       (''PUT'', SonarrAPI_put), (''DELETE'', SonarrAPI_delete)].
     ((\<exists>e. fst (verb c rp rel ps w) = Inl e) \<longleftrightarrow>
        rel = JUndefined \<or> (ps \<noteq> JUndefined \<and> typeof_js ps \<noteq> ''object''))
     \<and> (ps = JUndefined \<or> typeof_js ps = ''object'' \<longrightarrow>
          (\<exists>p. fst (verb c rp JNull ps w) = Inr p) \<and>
          (\<exists>ro q. requests (snd (verb c rp JNull ps w)) = requests w @ [ro] \<and>
                   http_method ro = m \<and> url ro = serverApi c @ ''null'' @ q))
     \<and> (rel \<noteq> JUndefined \<longrightarrow>
          (\<exists>p. fst (verb c rp rel JNull w) = Inr p) \<and>
          (\<exists>ro. requests (snd (verb c rp rel JNull w)) = requests w @ [ro] \<and>
                http_method ro = m \<and> url ro = serverApi c @ to_string rel \<and>
                json ro = (if m = ''GET'' then JBool True else JNull)))"
  using checked_verb_exact [of "SonarrAPI_get c rp" c rp "''GET''" rel ps w, OF verb_unfold(1)]
    checked_verb_exact [of "SonarrAPI_post c rp" c rp "''POST''" rel ps w, OF verb_unfold(2)]
    checked_verb_exact [of "SonarrAPI_put c rp" c rp "''PUT''" rel ps w, OF verb_unfold(3)]
    checked_verb_exact [of "SonarrAPI_delete c rp" c rp "''DELETE''" rel ps w, OF verb_unfold(4)]
  by simp

theorem null_arguments_are_dispatched_witness:
  "(\<exists>p. fst (SonarrAPI_delete
       \<lparr> hostname = ''localhost'', port = JNum 8989, apiKey = ''a1b2c3d4e5f6a7b8c9d0e1f2a3b4c5d6'',
         urlBase = JUndefined, ssl = JBool False, username = JNull, password = JNull,
         auth = False, serverApi = ''http://localhost:8989/api/'' \<rparr>
       (\<lambda>_. Fulfil JNull) JNull JNull \<lparr> requests = [], console = [] \<rparr>) = Inr p)
   \<and> (\<exists>ro. requests (snd (SonarrAPI_delete
       \<lparr> hostname = ''localhost'', port = JNum 8989, apiKey = ''a1b2c3d4e5f6a7b8c9d0e1f2a3b4c5d6'',
         urlBase = JUndefined, ssl = JBool False, username = JNull, password = JNull,
         auth = False, serverApi = ''http://localhost:8989/api/'' \<rparr>
       (\<lambda>_. Fulfil JNull) JNull JNull \<lparr> requests = [], console = [] \<rparr>)) = [ro]
      \<and> http_method ro = ''DELETE'' \<and> url ro = ''http://localhost:8989/api/null''
      \<and> json ro = JNull)"
  using null_arguments_are_dispatched [where rel = JNull and ps = JNull
      and rp = "\<lambda>_. Fulfil JNull" and w = "\<lparr> requests = [], console = [] \<rparr>"
      and c = "\<lparr> hostname = ''localhost'', port = JNum 8989,
         apiKey = ''a1b2c3d4e5f6a7b8c9d0e1f2a3b4c5d6'',
         urlBase = JUndefined, ssl = JBool False, username = JNull, password = JNull,
         auth = False, serverApi = ''http://localhost:8989/api/'' \<rparr>"]
  by simp

end
